theory Spec2Isabelle
  imports Complex_Main "HOL-Library.Sublist" "HOL-Library.Multiset"
begin

section \<open>Strings as the components use them\<close>

text \<open>
  File names, MIME types and messages are strings of 8-bit characters. The helpers below are
  the string and array methods of the runtime that the components call: \<open>split\<close> with a
  one-character separator, \<open>pop\<close>, \<open>toLowerCase\<close>, \<open>join\<close>, \<open>includes\<close>.
\<close>

fun split_on :: "char \<Rightarrow> string \<Rightarrow> string list" where
  "split_on c [] = [[]]"
| "split_on c (x # xs) =
     (if x = c then [] # split_on c xs
      else (case split_on c xs of
              [] \<Rightarrow> [[x]]
            | w # ws \<Rightarrow> (x # w) # ws))"

text \<open>\<open>pop\<close> gives the last element of an array, \<open>undefined\<close> (here \<open>None\<close>) on the empty one.\<close>

definition pop :: "'a list \<Rightarrow> 'a option" where
  "pop xs = (if xs = [] then None else Some (last xs))"

text \<open>
  \<open>toLowerCase\<close> on code units below 256: the letters A to Z and the Latin-1 capitals
  (192 to 222, the multiplication sign 215 apart) move up by 32, all else stays.
\<close>

definition lower_char :: "char \<Rightarrow> char" where
  "lower_char c =
     (let n = of_char c :: nat in
      if (65 \<le> n \<and> n \<le> 90) \<or> (192 \<le> n \<and> n \<le> 222 \<and> n \<noteq> 215)
      then char_of (n + 32) else c)"

definition toLowerCase :: "string \<Rightarrow> string" where
  "toLowerCase s = map lower_char s"

fun join :: "string \<Rightarrow> string list \<Rightarrow> string" where
  "join sep [] = []"
| "join sep [x] = x"
| "join sep (x # y # ys) = x @ sep @ join sep (y # ys)"

text \<open>\<open>hay.includes(needle)\<close> on strings: \<open>needle\<close> occurs as a contiguous piece of \<open>hay\<close>.\<close>

definition includes_str :: "string \<Rightarrow> string \<Rightarrow> bool" where
  "includes_str hay needle = sublist needle hay"

text \<open>\<open>arr[1]\<close>, which is \<open>undefined\<close> on a shorter array and then reads as that word.\<close>

definition index1 :: "string list \<Rightarrow> string" where
  "index1 xs = (case xs of _ # s # _ \<Rightarrow> s | _ \<Rightarrow> ''undefined'')"

section \<open>Files and the guardrail of the upload components\<close>

text \<open>
  The browser's \<open>File\<close>: its name, its size in bytes, the MIME type the browser reports for
  it (\<open>type\<close>), and its content. The size and the limits are byte counts.
\<close>

record File =
  name :: string
  size_bytes :: nat
  type_mime :: string
  bytes :: "nat list"

text \<open>\<open>FileWithPreview extends File\<close> (FileUploader.tsx).\<close>

record FileWithPreview = File +
  id_key :: string
  preview :: "string option"

text \<open>
  The extension both validators compute:
  \<^verbatim>\<open>`.${file.name.split('.').pop()?.toLowerCase()}`\<close>
\<close>

definition extension :: "'a File_scheme \<Rightarrow> string" where
  "extension f =
     ''.'' @ (case pop (split_on (CHR ''.'') (name f)) of
                None \<Rightarrow> ''undefined''
              | Some s \<Rightarrow> toLowerCase s)"

subsection \<open>UploadBox.tsx\<close>

text \<open>
  The props the validators read. \<open>maxSize\<close> is a byte count, \<open>maxFiles\<close> a file count.
  \<open>FileUploaderProps\<close> has the two fields of \<open>UploadBoxProps\<close> and \<open>maxFiles\<close>; the
  callbacks \<open>onFileSelect\<close> and \<open>onFilesSelect\<close> are modelled further down by the log of
  their calls.
\<close>

record UploadBoxProps =
  maxSize :: nat
  acceptedTypes :: "string list"

record FileUploaderProps = UploadBoxProps +
  maxFiles :: nat

definition default_UploadBoxProps :: UploadBoxProps where
  "default_UploadBoxProps =
     \<lparr> maxSize = 10 * 1024 * 1024,
       acceptedTypes = [''.pdf'', ''.jpg'', ''.jpeg'', ''.png'', ''.json''] \<rparr>"

definition mimeTypes :: "string \<Rightarrow> string option" where
  "mimeTypes = map_of
     [(''.pdf'', ''application/pdf''),
      (''.jpg'', ''image/jpeg''),
      (''.jpeg'', ''image/jpeg''),
      (''.png'', ''image/png''),
      (''.json'', ''application/json'')]"

text \<open>
  The three messages of \<open>validateFile\<close>. The number in the size message is the text the
  runtime gives for the quotient \<open>maxSize / (1024 * 1024)\<close>; that conversion is the
  parameter \<open>num\<close>.
\<close>

definition size_message :: "(rat \<Rightarrow> string) \<Rightarrow> 'p UploadBoxProps_scheme \<Rightarrow> string" where
  "size_message num p =
     ''File size exceeds '' @ num (of_nat (maxSize p) / (1024 * 1024)) @ ''MB limit''"

definition type_message :: "'p UploadBoxProps_scheme \<Rightarrow> string" where
  "type_message p =
     ''File type not supported. Accepted: '' @ join '', '' (acceptedTypes p)"

definition content_message :: string where
  "content_message = ''File content does not match extension''"

definition UploadBox_validateFile ::
  "(rat \<Rightarrow> string) \<Rightarrow> UploadBoxProps \<Rightarrow> 'a File_scheme \<Rightarrow> string" where
  "UploadBox_validateFile num p f =
     (if size_bytes f > maxSize p then size_message num p
      else if extension f \<notin> set (acceptedTypes p) then type_message p
      else (case mimeTypes (extension f) of
              None \<Rightarrow> ''''
            | Some expectedMime \<Rightarrow>
                if expectedMime \<noteq> '''' \<and>
                   \<not> includes_str (type_mime f) (index1 (split_on (CHR ''/'') expectedMime))
                then content_message
                else ''''))"

subsection \<open>FileUploader.tsx\<close>

definition default_FileUploaderProps :: FileUploaderProps where
  "default_FileUploaderProps =
     \<lparr> maxSize = 10 * 1024 * 1024,
       acceptedTypes = [''.pdf'', ''.jpg'', ''.jpeg'', ''.png'', ''.json''],
       maxFiles = 5 \<rparr>"

text \<open>\<open>Math.round\<close>: the nearest integer, halves upwards.\<close>

definition Math_round :: "rat \<Rightarrow> rat" where
  "Math_round x = of_int \<lfloor>x + 1 / 2\<rfloor>"

text \<open>
  The uploader's two messages start with the file's name and round the megabytes. Its
  validator returns \<open>null\<close> (here \<open>None\<close>) for a file it accepts.
\<close>

definition uploader_size_message ::
  "(rat \<Rightarrow> string) \<Rightarrow> FileUploaderProps \<Rightarrow> 'a File_scheme \<Rightarrow> string" where
  "uploader_size_message num p f =
     name f @ '': File size exceeds '' @
     num (Math_round (of_nat (maxSize p) / (1024 * 1024))) @ ''MB limit''"

definition uploader_type_message :: "FileUploaderProps \<Rightarrow> 'a File_scheme \<Rightarrow> string" where
  "uploader_type_message p f =
     name f @ '': File type not supported. Accepted: '' @ join '', '' (acceptedTypes p)"

definition FileUploader_validateFile ::
  "(rat \<Rightarrow> string) \<Rightarrow> FileUploaderProps \<Rightarrow> 'a File_scheme \<Rightarrow> string option" where
  "FileUploader_validateFile num p f =
     (if size_bytes f > maxSize p then Some (uploader_size_message num p f)
      else if extension f \<notin> set (acceptedTypes p) then Some (uploader_type_message p f)
      else None)"

subsection \<open>Numbers as text, and content signatures\<close>

text \<open>
  The text of a whole number from 0 up to \<open>10^21 - 1\<close> is its decimal digits.
  \<open>whole_number_text\<close> serves as the conversion \<open>num\<close> wherever the validators are run on a
  limit that is a whole number of megabytes.
\<close>

function decimal :: "nat \<Rightarrow> string" where
  "decimal n = (if n < 10 then [char_of (48 + n)]
                else decimal (n div 10) @ [char_of (48 + n mod 10)])"
  by pat_completeness auto
termination
  by (relation "measure id") auto

definition whole_number_text :: "rat \<Rightarrow> string" where
  "whole_number_text q = decimal (nat \<lfloor>q\<rfloor>)"

text \<open>
  Modelled from the spec: the byte-level content signature of section 4.1 (``confirmed by
  inspecting actual byte-level content signature''). No function of the frontend reads
  the bytes of a file, so the sniffed type is taken from the leading bytes that mark the
  formats the guardrail lists: PDF, PNG and JPEG.
\<close>

definition sniffed_type :: "nat list \<Rightarrow> string option" where
  "sniffed_type bs =
     (if prefix [0x25, 0x50, 0x44, 0x46] bs then Some ''application/pdf''
      else if prefix [0x89, 0x50, 0x4E, 0x47] bs then Some ''image/png''
      else if prefix [0xFF, 0xD8, 0xFF] bs then Some ''image/jpeg''
      else None)"

section \<open>The components' state and handlers\<close>

text \<open>
  A component's state is a record of its \<open>useState\<close> cells. A callback prop is an effect:
  the state record carries the log of the arguments it was called with, oldest first.
  Each handler runs on the state the previous one left.
\<close>

subsection \<open>UploadBox.handleFile\<close>

record UploadBoxState =
  selected :: "File option"
  error :: string
  onFileSelect_calls :: "File list"

definition UploadBox_init :: UploadBoxState where
  "UploadBox_init = \<lparr> selected = None, error = [], onFileSelect_calls = [] \<rparr>"

definition handleFile ::
  "(rat \<Rightarrow> string) \<Rightarrow> UploadBoxProps \<Rightarrow> UploadBoxState \<Rightarrow> File \<Rightarrow> UploadBoxState" where
  "handleFile num p st selectedFile =
     (let validationError = UploadBox_validateFile num p selectedFile in
      if validationError \<noteq> []
      then st\<lparr> error := validationError, selected := None \<rparr>
      else st\<lparr> error := [], selected := Some selectedFile,
               onFileSelect_calls := onFileSelect_calls st @ [selectedFile] \<rparr>)"

subsection \<open>FileUploader.handleFiles and removeFile\<close>

record FileUploaderState =
  files :: "FileWithPreview list"
  errors :: "string list"
  onFilesSelect_calls :: "FileWithPreview list list"

definition FileUploader_init :: FileUploaderState where
  "FileUploader_init = \<lparr> files = [], errors = [], onFilesSelect_calls = [] \<rparr>"

text \<open>\<open>arr.slice(0, e)\<close>: a negative end counts from the end of the array.\<close>

definition slice0 :: "'a list \<Rightarrow> int \<Rightarrow> 'a list" where
  "slice0 xs e =
     (let n = int (length xs);
          k = (if e < 0 then max (n + e) 0 else min e n)
      in take (nat k) xs)"

text \<open>A string or \<open>null\<close> in a condition: true unless \<open>null\<close> or empty.\<close>

definition truthy :: "string option \<Rightarrow> bool" where
  "truthy e = (case e of None \<Rightarrow> False | Some s \<Rightarrow> s \<noteq> [])"

text \<open>
  \<open>Object.assign(file, { id: `${file.name}-${Date.now()}-${Math.random()}` })\<close>. The clock
  and the random number are inputs: each dropped file comes with the text \<open>stamp\<close> that
  \<open>`${Date.now()}-${Math.random()}`\<close> gives when the file is reached.
\<close>

definition with_id :: "File \<Rightarrow> string \<Rightarrow> FileWithPreview" where
  "with_id f stamp = File.extend f \<lparr> id_key = name f @ ''-'' @ stamp, preview = None \<rparr>"

text \<open>
  The \<open>forEach\<close> loop of \<open>handleFiles\<close>; it returns \<open>validFiles\<close> and \<open>newErrors\<close>.
\<close>

fun forEach_validate ::
  "(rat \<Rightarrow> string) \<Rightarrow> FileUploaderProps \<Rightarrow> (File \<times> string) list \<Rightarrow>
   FileWithPreview list \<times> string list" where
  "forEach_validate num p [] = ([], [])"
| "forEach_validate num p ((f, stamp) # rest) =
     (let (validFiles, newErrors) = forEach_validate num p rest;
          err = FileUploader_validateFile num p f
      in (case err of
            None \<Rightarrow> (with_id f stamp # validFiles, newErrors)
          | Some e \<Rightarrow>
              if truthy err then (validFiles, e # newErrors)
              else (with_id f stamp # validFiles, newErrors)))"

definition handleFiles ::
  "(rat \<Rightarrow> string) \<Rightarrow> FileUploaderProps \<Rightarrow> FileUploaderState \<Rightarrow> (File \<times> string) list \<Rightarrow>
   FileUploaderState" where
  "handleFiles num p st newFiles =
     (let currentFileCount = length (files st);
          newFileArray = slice0 newFiles (int (maxFiles p) - int currentFileCount);
          (validFiles, newErrors) = forEach_validate num p newFileArray;
          st' = (if length validFiles > 0
                 then (let updatedFiles = files st @ validFiles
                       in st\<lparr> files := updatedFiles,
                              onFilesSelect_calls := onFilesSelect_calls st @ [updatedFiles] \<rparr>)
                 else st)
      in st'\<lparr> errors := newErrors \<rparr>)"

definition removeFile :: "FileUploaderState \<Rightarrow> string \<Rightarrow> FileUploaderState" where
  "removeFile st fileId =
     (let updatedFiles = filter (\<lambda>f. id_key f \<noteq> fileId) (files st)
      in st\<lparr> files := updatedFiles,
             onFilesSelect_calls := onFilesSelect_calls st @ [updatedFiles] \<rparr>)"

text \<open>What a user can do to the uploader, and a run of such operations.\<close>

datatype uploader_op = HandleFiles "(File \<times> string) list" | RemoveFile string

fun apply_op ::
  "(rat \<Rightarrow> string) \<Rightarrow> FileUploaderProps \<Rightarrow> FileUploaderState \<Rightarrow> uploader_op \<Rightarrow> FileUploaderState" where
  "apply_op num p st (HandleFiles newFiles) = handleFiles num p st newFiles"
| "apply_op num p st (RemoveFile fileId) = removeFile st fileId"

definition run_ops ::
  "(rat \<Rightarrow> string) \<Rightarrow> FileUploaderProps \<Rightarrow> uploader_op list \<Rightarrow> FileUploaderState" where
  "run_ops num p ops = foldl (apply_op num p) FileUploader_init ops"

text \<open>
  The invariant of the uploader: at most \<open>maxFiles\<close> files are selected, each of them passes
  the validator, and so does every file of every list handed to \<open>onFilesSelect\<close>.
\<close>

definition uploader_inv ::
  "(rat \<Rightarrow> string) \<Rightarrow> FileUploaderProps \<Rightarrow> FileUploaderState \<Rightarrow> bool" where
  "uploader_inv num p st \<longleftrightarrow>
     length (files st) \<le> maxFiles p
     \<and> list_all (\<lambda>g. FileUploader_validateFile num p g = None) (files st)
     \<and> list_all (list_all (\<lambda>g. FileUploader_validateFile num p g = None))
          (onFilesSelect_calls st)"

section \<open>Job polling (hooks/useApi.ts)\<close>

text \<open>
  A \<open>Job\<close> as the server's JSON gives it. \<open>status\<close> is declared as one of
  \<open>'pending' | 'processing' | 'completed' | 'failed'\<close>; the hook compares the text it
  received, so the field is a string here and the declared values are \<open>declared_statuses\<close>.
\<close>

record Job =
  job_id :: string
  status :: string
  created_at :: string
  user_type :: "string option"
  workflow_type :: "string option"

definition declared_statuses :: "string set" where
  "declared_statuses = {''pending'', ''processing'', ''completed'', ''failed''}"

text \<open>
  What a caller may put in \<open>options.refetchInterval\<close>: a number of milliseconds, as the
  option is declared, or (as the results page does) a function, of type \<open>'f\<close> here. The
  interval function of the query returns \<open>false\<close> (\<open>Stop\<close>) or an interval.
\<close>

datatype 'f interval = Millis int | Callback 'f

datatype 'f refetch = Stop | Every "'f interval"

record 'f useJob_options =
  enabled :: "bool option"
  refetchInterval :: "'f interval option"

text \<open>
  The \<open>refetchInterval\<close> function that \<open>useJob\<close> hands to the query. \<open>data\<close> is absent
  until the first answer; \<open>options\<close> may be absent, and so may its field.
\<close>

definition useJob_refetchInterval ::
  "'f useJob_options option \<Rightarrow> Job option \<Rightarrow> 'f refetch" where
  "useJob_refetchInterval options data =
     (if map_option status data = Some ''completed'' \<or> map_option status data = Some ''failed''
      then Stop
      else Every (case Option.bind options refetchInterval of
                    None \<Rightarrow> Millis 2000
                  | Some v \<Rightarrow> v))"

text \<open>
  The function the results page passes as \<open>options.refetchInterval\<close>
  (pages/ExporterResults.tsx): \<open>(data) => data?.status === 'completed' ? false : 3000\<close>.
\<close>

definition ExporterResults_refetchInterval :: "Job option \<Rightarrow> unit refetch" where
  "ExporterResults_refetchInterval data =
     (if map_option status data = Some ''completed'' then Stop else Every (Millis 3000))"

definition ExporterResults_options :: "(Job option \<Rightarrow> unit refetch) useJob_options" where
  "ExporterResults_options =
     \<lparr> enabled = Some True, refetchInterval = Some (Callback ExporterResults_refetchInterval) \<rparr>"

section \<open>Findings, issues and their severities\<close>

text \<open>
  The \<open>Finding\<close> interface of the types module:
  \<open>severity: 'critical' | 'warning' | 'info'\<close>.
\<close>

datatype FindingSeverity = Critical_f | Warning | Info

fun FindingSeverity_text :: "FindingSeverity \<Rightarrow> string" where
  "FindingSeverity_text Critical_f = ''critical''"
| "FindingSeverity_text Warning = ''warning''"
| "FindingSeverity_text Info = ''info''"

record Finding =
  id_finding :: string
  category :: string
  severity :: FindingSeverity
  field :: string
  expected :: string
  actual :: string
  description :: string
  ucpReference :: "string option"

text \<open>
  An element of \<open>ValidationResult.results.issues\<close> (hooks/useApi.ts):
  \<open>severity: 'low' | 'medium' | 'high' | 'critical'\<close>.
\<close>

datatype IssueSeverity = Low | Medium | High | Critical

fun IssueSeverity_text :: "IssueSeverity \<Rightarrow> string" where
  "IssueSeverity_text Low = ''low''"
| "IssueSeverity_text Medium = ''medium''"
| "IssueSeverity_text High = ''high''"
| "IssueSeverity_text Critical = ''critical''"

record Issue =
  severity :: IssueSeverity
  category :: string
  description :: string
  recommendation :: string
  affected_documents :: "string list"

subsection \<open>The issue list of the results page (pages/ExporterResults.tsx)\<close>

definition highPriorityIssues :: "Issue list \<Rightarrow> Issue list" where
  "highPriorityIssues issues =
     filter (\<lambda>issue. Issue.severity issue = Critical \<or> Issue.severity issue = High) issues"

definition displayedIssues :: "bool \<Rightarrow> Issue list \<Rightarrow> Issue list" where
  "displayedIssues showAllIssues issues =
     (if showAllIssues then issues else highPriorityIssues issues)"

section \<open>Sample inputs\<close>

text \<open>The files and runs on which the results below are exercised.\<close>

definition oversized_exe :: File where
  "oversized_exe =
     \<lparr> name = ''big.EXE'', size_bytes = 20000000,
       type_mime = ''application/x-msdownload'', bytes = [0x4D, 0x5A] \<rparr>"

definition small_exe :: File where
  "small_exe =
     \<lparr> name = ''notes.exe'', size_bytes = 100,
       type_mime = ''application/x-msdownload'', bytes = [0x4D, 0x5A] \<rparr>"

definition mislabelled_pdf :: File where
  "mislabelled_pdf =
     \<lparr> name = ''a.pdf'', size_bytes = 1, type_mime = ''image/png'', bytes = [0x89] \<rparr>"

definition png_named_pdf :: File where
  "png_named_pdf =
     \<lparr> name = ''scan.pdf'', size_bytes = 8, type_mime = ''application/pdf'',
       bytes = [0x89, 0x50, 0x4E, 0x47, 0x0D, 0x0A, 0x1A, 0x0A] \<rparr>"

definition good_pdf :: File where
  "good_pdf =
     \<lparr> name = ''LC.PDF'', size_bytes = 5, type_mime = ''application/pdf'',
       bytes = [0x25, 0x50, 0x44, 0x46, 0x2D] \<rparr>"

definition two_file_props :: FileUploaderProps where
  "two_file_props =
     \<lparr> maxSize = 10 * 1024 * 1024, acceptedTypes = [''.pdf'', ''.png''], maxFiles = 2 \<rparr>"

definition sample_drop :: "(File \<times> string) list" where
  "sample_drop =
     [(good_pdf, ''1700000000000-0.25''),
      (small_exe, ''1700000000000-0.5''),
      (good_pdf, ''1700000000001-0.75'')]"

definition sample_ops :: "uploader_op list" where
  "sample_ops = [HandleFiles sample_drop]"

definition review_job :: Job where
  "review_job =
     \<lparr> job_id = ''job-1'', status = ''needs_manual_review'',
       created_at = ''2024-01-15T10:30:00Z'', user_type = None, workflow_type = None \<rparr>"

definition no_options :: "unit useJob_options option" where
  "no_options = None"

definition warning_finding :: Finding where
  "warning_finding =
     \<lparr> id_finding = ''f-1'', Finding.category = ''dates'', Finding.severity = Warning,
       field = ''expiry_date'', expected = ''2024-03-01'', actual = ''2024-02-01'',
       Finding.description = ''expiry before shipment'', ucpReference = None \<rparr>"

definition sample_issue :: "IssueSeverity \<Rightarrow> string \<Rightarrow> Issue" where
  "sample_issue s d =
     \<lparr> severity = s, category = ''amount'', description = d,
       recommendation = ''amend'', affected_documents = [''lc.pdf''] \<rparr>"

definition sample_issues :: "Issue list" where
  "sample_issues =
     [sample_issue Low ''a'', sample_issue Critical ''b'', sample_issue Medium ''c'',
      sample_issue High ''d'', sample_issue Critical ''b'']"

section \<open>Facts about the string helpers and the messages\<close>

declare decimal.simps [simp del]

lemma split_on_nonempty: "split_on c s \<noteq> []"
  by (induction s) (auto split: list.splits)

lemma extension_eq: "extension f = CHR ''.'' # toLowerCase (last (split_on (CHR ''.'') (name f)))"
  by (simp add: extension_def pop_def split_on_nonempty)

lemma mimeTypes_cases:
  "mimeTypes e = Some m \<Longrightarrow>
     m \<noteq> [] \<and> index1 (split_on (CHR ''/'') m) \<in> {''pdf'', ''jpeg'', ''png'', ''json''}"
  by (auto simp: mimeTypes_def index1_def split: if_splits)

lemma size_message_neq_type_message: "size_message num p \<noteq> type_message q"
  by (simp add: size_message_def type_message_def)

lemma size_message_neq_content_message: "size_message num p \<noteq> content_message"
  by (simp add: size_message_def content_message_def)

lemma type_message_neq_content_message: "type_message p \<noteq> content_message"
  by (simp add: type_message_def content_message_def)

lemma messages_nonempty:
  "size_message num p \<noteq> []" "type_message p \<noteq> []" "content_message \<noteq> []"
  by (simp_all add: size_message_def type_message_def content_message_def)

lemma uploader_messages_differ: "uploader_size_message num p f \<noteq> uploader_type_message q f"
  by (simp add: uploader_size_message_def uploader_type_message_def)

lemma uploader_messages_nonempty:
  "uploader_size_message num p f \<noteq> []" "uploader_type_message p f \<noteq> []"
  by (simp_all add: uploader_size_message_def uploader_type_message_def)

lemma UploadBox_validateFile_cases:
  "UploadBox_validateFile num p f = size_message num p \<and> maxSize p < size_bytes f
   \<or> UploadBox_validateFile num p f = type_message p \<and> size_bytes f \<le> maxSize p
       \<and> extension f \<notin> set (acceptedTypes p)
   \<or> UploadBox_validateFile num p f = content_message \<and> size_bytes f \<le> maxSize p
       \<and> extension f \<in> set (acceptedTypes p)
       \<and> (\<exists>m. mimeTypes (extension f) = Some m
              \<and> \<not> includes_str (type_mime f) (index1 (split_on (CHR ''/'') m)))
   \<or> UploadBox_validateFile num p f = [] \<and> size_bytes f \<le> maxSize p
       \<and> extension f \<in> set (acceptedTypes p)
       \<and> (\<forall>m. mimeTypes (extension f) = Some m
              \<longrightarrow> includes_str (type_mime f) (index1 (split_on (CHR ''/'') m)))"
  by (auto simp: UploadBox_validateFile_def dest: mimeTypes_cases split: option.splits)

lemma FileUploader_validateFile_cases:
  "FileUploader_validateFile num p f = Some (uploader_size_message num p f)
       \<and> maxSize p < size_bytes f
   \<or> FileUploader_validateFile num p f = Some (uploader_type_message p f)
       \<and> size_bytes f \<le> maxSize p \<and> extension f \<notin> set (acceptedTypes p)
   \<or> FileUploader_validateFile num p f = None
       \<and> size_bytes f \<le> maxSize p \<and> extension f \<in> set (acceptedTypes p)"
  by (auto simp: FileUploader_validateFile_def)

lemma extension_same_name: "name f = name g \<Longrightarrow> extension f = extension g"
  by (simp add: extension_def)

text \<open>When each validator accepts.\<close>

lemma UploadBox_accepts_iff:
  "UploadBox_validateFile num p f = [] \<longleftrightarrow>
     size_bytes f \<le> maxSize p \<and> extension f \<in> set (acceptedTypes p)
     \<and> (\<forall>m. mimeTypes (extension f) = Some m
            \<longrightarrow> includes_str (type_mime f) (index1 (split_on (CHR ''/'') m)))"
  using UploadBox_validateFile_cases [of num p f] messages_nonempty(1) [of num p]
        messages_nonempty(2) [of p] messages_nonempty(3)
  by auto

lemma FileUploader_accepts_iff:
  "FileUploader_validateFile num p f = None \<longleftrightarrow>
     size_bytes f \<le> maxSize p \<and> extension f \<in> set (acceptedTypes p)"
  by (simp add: FileUploader_validateFile_def)

lemmas sample_files = oversized_exe_def small_exe_def mislabelled_pdf_def png_named_pdf_def good_pdf_def

lemmas string_eval = extension_def pop_def toLowerCase_def lower_char_def char_of_eq_iff
  mimeTypes_def includes_str_def index1_def sublist_code

section \<open>The guardrail: \<open>validateFile\<close>\<close>

text \<open>
  Claim C1. Both validators are meant to accept a file exactly when its size is within the
  limit, its extension is on the allow-list and its content type matches the extension, and
  to name the violated check otherwise. \<open>UploadBox.validateFile\<close> does so. The uploader's
  \<open>validateFile\<close> stops after the extension check: a small file named \<open>a.pdf\<close> whose
  reported type is \<open>image/png\<close> fails the content check of the box and passes the uploader.
\<close>

theorem uploader_omits_content_check:
  "size_bytes mislabelled_pdf \<le> maxSize default_FileUploaderProps
   \<and> extension mislabelled_pdf = ''.pdf''
   \<and> mimeTypes (extension mislabelled_pdf) = Some ''application/pdf''
   \<and> \<not> includes_str (type_mime mislabelled_pdf) ''pdf''
   \<and> UploadBox_validateFile whole_number_text default_UploadBoxProps mislabelled_pdf
       = content_message
   \<and> FileUploader_validateFile whole_number_text default_FileUploaderProps mislabelled_pdf
       = None"
  by (simp add: UploadBox_validateFile_def FileUploader_validateFile_def
      default_UploadBoxProps_def default_FileUploaderProps_def sample_files string_eval)

text \<open>
  Claim C2. The checks run in the order size, file type, content match, and the first
  failure decides: a file over the size limit gets the size message from either validator,
  whatever its extension and type; the file-type message is returned only for a file
  within the size limit (whose extension is then off the allow-list), and the content
  message only for a file within the limit with an allowed extension.
\<close>

theorem validateFile_checks_in_order:
  "(maxSize p < size_bytes f \<longrightarrow> UploadBox_validateFile num p f = size_message num p)
   \<and> (UploadBox_validateFile num p f = type_message p
        \<longrightarrow> size_bytes f \<le> maxSize p \<and> extension f \<notin> set (acceptedTypes p))
   \<and> (UploadBox_validateFile num p f = content_message
        \<longrightarrow> size_bytes f \<le> maxSize p \<and> extension f \<in> set (acceptedTypes p))
   \<and> (maxSize q < size_bytes f
        \<longrightarrow> FileUploader_validateFile num q f = Some (uploader_size_message num q f))
   \<and> (FileUploader_validateFile num q f = Some (uploader_type_message q f)
        \<longrightarrow> size_bytes f \<le> maxSize q \<and> extension f \<notin> set (acceptedTypes q))"
proof -
  have box: "maxSize p < size_bytes f \<longrightarrow> UploadBox_validateFile num p f = size_message num p"
    by (simp add: UploadBox_validateFile_def)
  have box_type: "UploadBox_validateFile num p f = type_message p
      \<longrightarrow> size_bytes f \<le> maxSize p \<and> extension f \<notin> set (acceptedTypes p)"
    using UploadBox_validateFile_cases [of num p f]
          size_message_neq_type_message [of num p p]
          type_message_neq_content_message [of p] messages_nonempty(2) [of p]
    by auto
  have box_content: "UploadBox_validateFile num p f = content_message
      \<longrightarrow> size_bytes f \<le> maxSize p \<and> extension f \<in> set (acceptedTypes p)"
    using UploadBox_validateFile_cases [of num p f]
          size_message_neq_content_message [of num p]
          type_message_neq_content_message [of p]
    by auto
  have up: "maxSize q < size_bytes f
      \<longrightarrow> FileUploader_validateFile num q f = Some (uploader_size_message num q f)"
    by (simp add: FileUploader_validateFile_def)
  have up_type: "FileUploader_validateFile num q f = Some (uploader_type_message q f)
      \<longrightarrow> size_bytes f \<le> maxSize q \<and> extension f \<notin> set (acceptedTypes q)"
    using FileUploader_validateFile_cases [of num q f]
          uploader_messages_differ [of num q f q]
    by auto
  from box box_type box_content up up_type show ?thesis by blast
qed

theorem validateFile_checks_in_order_witness:
  "maxSize default_UploadBoxProps < size_bytes oversized_exe
   \<and> extension oversized_exe \<notin> set (acceptedTypes default_UploadBoxProps)
   \<and> UploadBox_validateFile whole_number_text default_UploadBoxProps oversized_exe
       = size_message whole_number_text default_UploadBoxProps
   \<and> FileUploader_validateFile whole_number_text default_FileUploaderProps oversized_exe
       = Some (uploader_size_message whole_number_text default_FileUploaderProps oversized_exe)
   \<and> UploadBox_validateFile whole_number_text default_UploadBoxProps small_exe
       = type_message default_UploadBoxProps
   \<and> FileUploader_validateFile whole_number_text default_FileUploaderProps small_exe
       = Some (uploader_type_message default_FileUploaderProps small_exe)
   \<and> size_bytes small_exe \<le> maxSize default_UploadBoxProps
   \<and> UploadBox_validateFile whole_number_text default_UploadBoxProps mislabelled_pdf
       = content_message
   \<and> extension mislabelled_pdf \<in> set (acceptedTypes default_UploadBoxProps)"
  using validateFile_checks_in_order
          [of default_UploadBoxProps oversized_exe whole_number_text default_FileUploaderProps]
        validateFile_checks_in_order
          [of default_UploadBoxProps small_exe whole_number_text default_FileUploaderProps]
        validateFile_checks_in_order
          [of default_UploadBoxProps mislabelled_pdf whole_number_text default_FileUploaderProps]
  by (simp add: UploadBox_validateFile_def FileUploader_validateFile_def
      default_UploadBoxProps_def default_FileUploaderProps_def sample_files string_eval)

text \<open>
  Claim C3, as the code has it. For a file within the size limit whose extension is on the
  allow-list and in the MIME table, \<open>UploadBox.validateFile\<close> compares the extension with
  the type the browser reports (\<open>file.type\<close>), which must contain the subtype expected for
  the extension; a mismatch yields the content message. The verdict does not depend on the
  bytes of the file.
\<close>

theorem content_check_compares_reported_type:
  assumes "size_bytes f \<le> maxSize p"
    and "extension f \<in> set (acceptedTypes p)"
    and "mimeTypes (extension f) = Some m"
  shows "(UploadBox_validateFile num p f = content_message
            \<longleftrightarrow> \<not> includes_str (type_mime f) (index1 (split_on (CHR ''/'') m)))
         \<and> (UploadBox_validateFile num p f = []
            \<longleftrightarrow> includes_str (type_mime f) (index1 (split_on (CHR ''/'') m)))
         \<and> UploadBox_validateFile num p (f\<lparr>bytes := bs\<rparr>) = UploadBox_validateFile num p f"
proof -
  from assms(3) have m: "m \<noteq> []"
    by (simp add: mimeTypes_cases)
  have ext: "extension (f\<lparr>bytes := bs\<rparr>) = extension f"
    by (simp add: extension_def)
  from assms m have verdict: "UploadBox_validateFile num p f =
      (if includes_str (type_mime f) (index1 (split_on (CHR ''/'') m)) then []
       else content_message)"
    by (simp add: UploadBox_validateFile_def)
  have same: "UploadBox_validateFile num p (f\<lparr>bytes := bs\<rparr>) = UploadBox_validateFile num p f"
    by (simp add: UploadBox_validateFile_def ext split: option.splits)
  from verdict same messages_nonempty(3) show ?thesis
    by auto
qed

theorem content_check_compares_reported_type_witness:
  "size_bytes mislabelled_pdf \<le> maxSize default_UploadBoxProps
   \<and> extension mislabelled_pdf \<in> set (acceptedTypes default_UploadBoxProps)
   \<and> mimeTypes (extension mislabelled_pdf) = Some ''application/pdf''
   \<and> \<not> includes_str (type_mime mislabelled_pdf) (index1 (split_on (CHR ''/'') ''application/pdf''))
   \<and> UploadBox_validateFile whole_number_text default_UploadBoxProps mislabelled_pdf
       = content_message
   \<and> UploadBox_validateFile whole_number_text default_UploadBoxProps
        (mislabelled_pdf\<lparr>bytes := [0x25, 0x50, 0x44, 0x46]\<rparr>) = content_message"
proof -
  have h1: "size_bytes mislabelled_pdf \<le> maxSize default_UploadBoxProps"
    by (simp add: default_UploadBoxProps_def sample_files)
  have h2: "extension mislabelled_pdf \<in> set (acceptedTypes default_UploadBoxProps)"
    by (simp add: default_UploadBoxProps_def sample_files string_eval)
  have h3: "mimeTypes (extension mislabelled_pdf) = Some ''application/pdf''"
    by (simp add: sample_files string_eval)
  have h4: "\<not> includes_str (type_mime mislabelled_pdf)
                (index1 (split_on (CHR ''/'') ''application/pdf''))"
    by (simp add: sample_files string_eval)
  from content_check_compares_reported_type [OF h1 h2 h3, of whole_number_text "[0x25, 0x50, 0x44, 0x46]"]
       h1 h2 h3 h4
  show ?thesis by simp
qed

text \<open>
  Claim C3 as stated fails: a file named \<open>scan.pdf\<close> that the browser reports as
  \<open>application/pdf\<close> and whose bytes carry the PNG signature is accepted by both
  validators, although its sniffed type differs from the type its extension claims.
\<close>

theorem content_signature_not_inspected:
  "size_bytes png_named_pdf \<le> maxSize default_UploadBoxProps
   \<and> extension png_named_pdf \<in> set (acceptedTypes default_UploadBoxProps)
   \<and> mimeTypes (extension png_named_pdf) = Some ''application/pdf''
   \<and> sniffed_type (bytes png_named_pdf) = Some ''image/png''
   \<and> UploadBox_validateFile whole_number_text default_UploadBoxProps png_named_pdf = []
   \<and> FileUploader_validateFile whole_number_text default_FileUploaderProps png_named_pdf
       = None"
  by (simp add: UploadBox_validateFile_def FileUploader_validateFile_def sniffed_type_def
      default_UploadBoxProps_def default_FileUploaderProps_def sample_files string_eval)

text \<open>
  Claim C8. \<open>UploadBox.validateFile\<close> is a function of the file's name, size and reported
  type (and of the props): two files that agree on these get the same result string. The
  function has no state among its arguments or results, as its source has no assignment
  and calls no setter.
\<close>

theorem validateFile_deterministic:
  assumes "name f = name g" and "size_bytes f = size_bytes g" and "type_mime f = type_mime g"
  shows "UploadBox_validateFile num p f = UploadBox_validateFile num p g"
  using assms extension_same_name [of f g]
  by (simp add: UploadBox_validateFile_def split: option.splits)

theorem validateFile_deterministic_witness:
  "name png_named_pdf = name (png_named_pdf\<lparr>bytes := [0x25, 0x50, 0x44, 0x46]\<rparr>)
   \<and> size_bytes png_named_pdf = size_bytes (png_named_pdf\<lparr>bytes := [0x25, 0x50, 0x44, 0x46]\<rparr>)
   \<and> type_mime png_named_pdf = type_mime (png_named_pdf\<lparr>bytes := [0x25, 0x50, 0x44, 0x46]\<rparr>)
   \<and> png_named_pdf \<noteq> png_named_pdf\<lparr>bytes := [0x25, 0x50, 0x44, 0x46]\<rparr>
   \<and> UploadBox_validateFile whole_number_text default_UploadBoxProps png_named_pdf
       = UploadBox_validateFile whole_number_text default_UploadBoxProps
           (png_named_pdf\<lparr>bytes := [0x25, 0x50, 0x44, 0x46]\<rparr>)"
  using validateFile_deterministic
          [of png_named_pdf "png_named_pdf\<lparr>bytes := [0x25, 0x50, 0x44, 0x46]\<rparr>"
              whole_number_text default_UploadBoxProps]
  by (simp add: sample_files)

section \<open>The upload handlers\<close>

lemma validate_with_id:
  "FileUploader_validateFile num p (with_id f stamp) = FileUploader_validateFile num p f"
  by (simp add: FileUploader_validateFile_def with_id_def File.defs extension_def
      uploader_size_message_def uploader_type_message_def)

lemma truthy_validate:
  "truthy (FileUploader_validateFile num p f) \<longleftrightarrow> FileUploader_validateFile num p f \<noteq> None"
  using FileUploader_validateFile_cases [of num p f]
        uploader_messages_nonempty(1) [of num p f] uploader_messages_nonempty(2) [of p f]
  by (auto simp: truthy_def)

lemma forEach_validate_fst:
  "fst (forEach_validate num p xs) =
     map (\<lambda>(f, stamp). with_id f stamp)
       (filter (\<lambda>(f, stamp). FileUploader_validateFile num p f = None) xs)"
proof (induction xs)
  case Nil
  show ?case by simp
next
  case (Cons x xs)
  obtain f stamp where x: "x = (f, stamp)" by (cases x)
  from Cons truthy_validate [of num p f] show ?case
    by (cases "FileUploader_validateFile num p f")
       (simp_all add: x split_beta)
qed

lemma forEach_validate_snd:
  "snd (forEach_validate num p xs) =
     List.map_filter (\<lambda>(f, stamp). FileUploader_validateFile num p f) xs"
proof (induction xs)
  case Nil
  show ?case by (simp add: List.map_filter_simps)
next
  case (Cons x xs)
  obtain f stamp where x: "x = (f, stamp)" by (cases x)
  from Cons truthy_validate [of num p f] show ?case
    by (cases "FileUploader_validateFile num p f")
       (simp_all add: x split_beta List.map_filter_simps)
qed

lemma slice0_nonneg: "0 \<le> e \<Longrightarrow> slice0 xs e = take (nat e) xs"
  by (simp add: slice0_def Let_def min_def)

lemma handleFiles_files:
  "length (files st) \<le> maxFiles p \<Longrightarrow>
   files (handleFiles num p st newFiles) =
     files st @ map (\<lambda>(f, stamp). with_id f stamp)
       (filter (\<lambda>(f, stamp). FileUploader_validateFile num p f = None)
          (take (maxFiles p - length (files st)) newFiles))"
  using forEach_validate_fst [of num p "take (maxFiles p - length (files st)) newFiles"]
  by (simp add: handleFiles_def Let_def slice0_nonneg nat_diff_distrib' split_beta)

lemma handleFiles_errors:
  "length (files st) \<le> maxFiles p \<Longrightarrow>
   errors (handleFiles num p st newFiles) =
     List.map_filter (\<lambda>(f, stamp). FileUploader_validateFile num p f)
       (take (maxFiles p - length (files st)) newFiles)"
  using forEach_validate_snd [of num p "take (maxFiles p - length (files st)) newFiles"]
  by (simp add: handleFiles_def Let_def slice0_nonneg nat_diff_distrib' split_beta)

lemma handleFiles_calls:
  "onFilesSelect_calls (handleFiles num p st newFiles) = onFilesSelect_calls st
   \<or> onFilesSelect_calls (handleFiles num p st newFiles)
       = onFilesSelect_calls st @ [files (handleFiles num p st newFiles)]"
  by (simp add: handleFiles_def Let_def split_beta)

lemma uploader_inv_init: "uploader_inv num p FileUploader_init"
  by (simp add: uploader_inv_def FileUploader_init_def)

lemma uploader_inv_handleFiles:
  assumes "uploader_inv num p st"
  shows "uploader_inv num p (handleFiles num p st newFiles)"
proof -
  let ?k = "maxFiles p - length (files st)"
  let ?new = "map (\<lambda>(f, stamp). with_id f stamp)
       (filter (\<lambda>(f, stamp). FileUploader_validateFile num p f = None) (take ?k newFiles))"
  from assms have len: "length (files st) \<le> maxFiles p"
    and ok: "list_all (\<lambda>g. FileUploader_validateFile num p g = None) (files st)"
    and calls: "list_all (list_all (\<lambda>g. FileUploader_validateFile num p g = None))
          (onFilesSelect_calls st)"
    by (simp_all add: uploader_inv_def)
  have files': "files (handleFiles num p st newFiles) = files st @ ?new"
    using len by (rule handleFiles_files)
  have "length ?new \<le> length (take ?k newFiles)"
    by (simp del: length_take)
  then have "length ?new \<le> ?k"
    by simp
  with len have len': "length (files (handleFiles num p st newFiles)) \<le> maxFiles p"
    by (simp add: files' del: length_map)
  have new_ok: "list_all (\<lambda>g. FileUploader_validateFile num p g = None) ?new"
    by (auto simp: list_all_iff validate_with_id)
  with ok have ok': "list_all (\<lambda>g. FileUploader_validateFile num p g = None)
      (files (handleFiles num p st newFiles))"
    by (simp add: files')
  from handleFiles_calls [of num p st newFiles] calls ok'
  have "list_all (list_all (\<lambda>g. FileUploader_validateFile num p g = None))
          (onFilesSelect_calls (handleFiles num p st newFiles))"
    by auto
  with len' ok' show ?thesis
    by (simp add: uploader_inv_def)
qed

lemma uploader_inv_removeFile:
  assumes "uploader_inv num p st"
  shows "uploader_inv num p (removeFile st fileId)"
proof -
  from assms have "length (filter (\<lambda>f. id_key f \<noteq> fileId) (files st)) \<le> maxFiles p"
    by (auto simp: uploader_inv_def intro: le_trans [OF length_filter_le])
  with assms show ?thesis
    by (auto simp: uploader_inv_def removeFile_def Let_def list_all_iff)
qed

lemma uploader_inv_foldl:
  "uploader_inv num p st \<Longrightarrow> uploader_inv num p (foldl (apply_op num p) st ops)"
proof (induction ops arbitrary: st)
  case Nil
  then show ?case by simp
next
  case (Cons x ops)
  have "uploader_inv num p (apply_op num p st x)"
    using Cons.prems
    by (cases x) (simp_all add: uploader_inv_handleFiles uploader_inv_removeFile)
  then show ?case
    using Cons.IH by simp
qed

lemma uploader_inv_run_ops: "uploader_inv num p (run_ops num p ops)"
  by (simp add: run_ops_def uploader_inv_foldl uploader_inv_init)

lemma sample_validations:
  "FileUploader_validateFile whole_number_text two_file_props good_pdf = None"
  "FileUploader_validateFile whole_number_text two_file_props small_exe
     = Some (uploader_type_message two_file_props small_exe)"
  by (simp_all add: FileUploader_validateFile_def two_file_props_def sample_files string_eval)

lemma sample_run:
  "run_ops whole_number_text two_file_props sample_ops =
     \<lparr> files = [with_id good_pdf ''1700000000000-0.25''],
       errors = [uploader_type_message two_file_props small_exe],
       onFilesSelect_calls = [[with_id good_pdf ''1700000000000-0.25'']] \<rparr>"
proof -
  have k: "slice0 sample_drop (int (maxFiles two_file_props))
      = [(good_pdf, ''1700000000000-0.25''), (small_exe, ''1700000000000-0.5'')]"
    by (simp add: slice0_def sample_drop_def two_file_props_def)
  have v: "forEach_validate whole_number_text two_file_props
        [(good_pdf, ''1700000000000-0.25''), (small_exe, ''1700000000000-0.5'')]
      = ([with_id good_pdf ''1700000000000-0.25''],
         [uploader_type_message two_file_props small_exe])"
    using uploader_messages_nonempty(2) [of two_file_props small_exe]
    by (simp add: sample_validations truthy_def)
  show ?thesis
    by (simp add: run_ops_def sample_ops_def handleFiles_def FileUploader_init_def Let_def k v
        del: forEach_validate.simps)
qed

text \<open>
  Claim C4. A file that the guardrail rejects is not forwarded. In the upload box, when
  \<open>validateFile\<close> returns an error, \<open>handleFile\<close> stores that error, clears the selected
  file and does not call \<open>onFileSelect\<close>. In the uploader, after any run of \<open>handleFiles\<close>
  and \<open>removeFile\<close> from the empty list, every file of every list that was passed to
  \<open>onFilesSelect\<close> passes \<open>validateFile\<close>; so a file with a validation error is in none of
  these lists, whatever id it would have been given.
\<close>

theorem rejected_file_never_forwarded:
  "(UploadBox_validateFile num p f \<noteq> [] \<longrightarrow>
      handleFile num p st f = st\<lparr> error := UploadBox_validateFile num p f, selected := None \<rparr>
      \<and> onFileSelect_calls (handleFile num p st f) = onFileSelect_calls st)
   \<and> (\<forall>passed \<in> set (onFilesSelect_calls (run_ops num q ops)).
        \<forall>g \<in> set passed. FileUploader_validateFile num q g = None)
   \<and> (FileUploader_validateFile num q f \<noteq> None \<longrightarrow>
        (\<forall>passed \<in> set (onFilesSelect_calls (run_ops num q ops)).
           \<forall>stamp. with_id f stamp \<notin> set passed))"
proof -
  have box: "UploadBox_validateFile num p f \<noteq> [] \<longrightarrow>
      handleFile num p st f = st\<lparr> error := UploadBox_validateFile num p f, selected := None \<rparr>
      \<and> onFileSelect_calls (handleFile num p st f) = onFileSelect_calls st"
    by (simp add: handleFile_def Let_def)
  have passed_ok: "\<forall>passed \<in> set (onFilesSelect_calls (run_ops num q ops)).
        \<forall>g \<in> set passed. FileUploader_validateFile num q g = None"
    using uploader_inv_run_ops [of num q ops]
    by (simp add: uploader_inv_def list_all_iff)
  have excluded: "FileUploader_validateFile num q f \<noteq> None \<longrightarrow>
        (\<forall>passed \<in> set (onFilesSelect_calls (run_ops num q ops)).
           \<forall>stamp. with_id f stamp \<notin> set passed)"
    using passed_ok validate_with_id [of num q f] by metis
  from box passed_ok excluded show ?thesis by blast
qed

theorem rejected_file_never_forwarded_witness:
  "handleFile whole_number_text default_UploadBoxProps UploadBox_init good_pdf
     = \<lparr> selected = Some good_pdf, error = [], onFileSelect_calls = [good_pdf] \<rparr>
   \<and> UploadBox_validateFile whole_number_text default_UploadBoxProps small_exe \<noteq> []
   \<and> handleFile whole_number_text default_UploadBoxProps
        (handleFile whole_number_text default_UploadBoxProps UploadBox_init good_pdf) small_exe
       = \<lparr> selected = None, error = type_message default_UploadBoxProps,
           onFileSelect_calls = [good_pdf] \<rparr>
   \<and> FileUploader_validateFile whole_number_text two_file_props small_exe \<noteq> None
   \<and> onFilesSelect_calls (run_ops whole_number_text two_file_props sample_ops)
       = [[with_id good_pdf ''1700000000000-0.25'']]
   \<and> FileUploader_validateFile whole_number_text two_file_props
        (with_id good_pdf ''1700000000000-0.25'') = None
   \<and> with_id small_exe ''1700000000000-0.5'' \<notin> set [with_id good_pdf ''1700000000000-0.25'']"
proof -
  have acc: "UploadBox_validateFile whole_number_text default_UploadBoxProps good_pdf = []"
    by (simp add: UploadBox_validateFile_def default_UploadBoxProps_def sample_files string_eval)
  have st1: "handleFile whole_number_text default_UploadBoxProps UploadBox_init good_pdf
     = \<lparr> selected = Some good_pdf, error = [], onFileSelect_calls = [good_pdf] \<rparr>"
    by (simp add: handleFile_def Let_def acc UploadBox_init_def)
  have rej: "UploadBox_validateFile whole_number_text default_UploadBoxProps small_exe
      = type_message default_UploadBoxProps"
    by (simp add: UploadBox_validateFile_def default_UploadBoxProps_def sample_files string_eval)
  have rej_up: "FileUploader_validateFile whole_number_text two_file_props small_exe \<noteq> None"
    by (simp add: sample_validations)
  have calls: "onFilesSelect_calls (run_ops whole_number_text two_file_props sample_ops)
       = [[with_id good_pdf ''1700000000000-0.25'']]"
    by (simp add: sample_run)
  from rejected_file_never_forwarded
         [of whole_number_text default_UploadBoxProps small_exe
             "handleFile whole_number_text default_UploadBoxProps UploadBox_init good_pdf"
             two_file_props sample_ops]
       st1 rej rej_up calls messages_nonempty(2) [of default_UploadBoxProps]
  show ?thesis by simp
qed

text \<open>
  Claim C9. After every run of \<open>handleFiles\<close> and \<open>removeFile\<close> that starts from the empty
  list, the selected files are at most \<open>maxFiles\<close> and each of them passes \<open>validateFile\<close>.
  A further drop keeps, of its first \<open>maxFiles - length files\<close> files, those that pass, and
  reports an error for each of the others among them; the files beyond that prefix are
  neither kept nor reported.
\<close>

theorem uploader_files_bounded_and_valid:
  "length (files (run_ops num p ops)) \<le> maxFiles p
   \<and> (\<forall>g \<in> set (files (run_ops num p ops)). FileUploader_validateFile num p g = None)
   \<and> files (handleFiles num p (run_ops num p ops) newFiles) =
       files (run_ops num p ops) @ map (\<lambda>(f, stamp). with_id f stamp)
         (filter (\<lambda>(f, stamp). FileUploader_validateFile num p f = None)
            (take (maxFiles p - length (files (run_ops num p ops))) newFiles))
   \<and> errors (handleFiles num p (run_ops num p ops) newFiles) =
       List.map_filter (\<lambda>(f, stamp). FileUploader_validateFile num p f)
         (take (maxFiles p - length (files (run_ops num p ops))) newFiles)"
proof -
  have inv: "uploader_inv num p (run_ops num p ops)"
    by (rule uploader_inv_run_ops)
  then have len: "length (files (run_ops num p ops)) \<le> maxFiles p"
    by (simp add: uploader_inv_def)
  from inv have ok: "\<forall>g \<in> set (files (run_ops num p ops)). FileUploader_validateFile num p g = None"
    by (simp add: uploader_inv_def list_all_iff)
  from len ok handleFiles_files [OF len, of num newFiles] handleFiles_errors [OF len, of num newFiles]
  show ?thesis by blast
qed

theorem uploader_files_bounded_and_valid_witness:
  "files (run_ops whole_number_text two_file_props sample_ops)
     = [with_id good_pdf ''1700000000000-0.25'']
   \<and> length [with_id good_pdf ''1700000000000-0.25''] \<le> maxFiles two_file_props
   \<and> FileUploader_validateFile whole_number_text two_file_props
        (with_id good_pdf ''1700000000000-0.25'') = None
   \<and> errors (run_ops whole_number_text two_file_props sample_ops)
     = [uploader_type_message two_file_props small_exe]
   \<and> length sample_drop = 3"
proof -
  have fs: "files (run_ops whole_number_text two_file_props sample_ops)
     = [with_id good_pdf ''1700000000000-0.25'']"
    by (simp add: sample_run)
  have es: "errors (run_ops whole_number_text two_file_props sample_ops)
     = [uploader_type_message two_file_props small_exe]"
    by (simp add: sample_run)
  from uploader_files_bounded_and_valid [of whole_number_text two_file_props sample_ops "[]"] fs es
  show ?thesis by (simp add: sample_drop_def)
qed

section \<open>Polling a job\<close>

text \<open>
  On the four declared statuses the interval function stops exactly at the terminal ones;
  \<open>needs_manual_review\<close> is not among the declared values.
\<close>

lemma polling_on_declared_statuses:
  "status job \<in> declared_statuses \<Longrightarrow>
     useJob_refetchInterval options (Some job) = Stop
       \<longleftrightarrow> status job \<in> {''completed'', ''failed'', ''needs_manual_review''}"
  by (auto simp: useJob_refetchInterval_def declared_statuses_def)

lemma needs_manual_review_not_declared: "''needs_manual_review'' \<notin> declared_statuses"
  by (simp add: declared_statuses_def)

text \<open>
  Claim C5, as the code has it. The interval function of \<open>useJob\<close> returns \<open>false\<close> exactly
  when the job's status is \<open>completed\<close> or \<open>failed\<close>, the two terminal values of the declared
  status type. Otherwise it returns the caller's \<open>refetchInterval\<close> option, or 2000 when
  there is none: a positive number of milliseconds whenever the caller's number, if any,
  is positive.
\<close>

theorem polling_stops_at_completed_or_failed:
  "(useJob_refetchInterval options data = Stop
      \<longleftrightarrow> (\<exists>job. data = Some job \<and> (status job = ''completed'' \<or> status job = ''failed'')))
   \<and> (useJob_refetchInterval options data \<noteq> Stop
      \<longrightarrow> useJob_refetchInterval options data
          = Every (case Option.bind options refetchInterval of
                     None \<Rightarrow> Millis 2000 | Some v \<Rightarrow> v))
   \<and> (useJob_refetchInterval options data = Every (Millis n)
        \<and> (\<forall>m. Option.bind options refetchInterval = Some (Millis m) \<longrightarrow> 0 < m)
      \<longrightarrow> 0 < n)"
  by (cases data; cases "Option.bind options refetchInterval")
     (auto simp: useJob_refetchInterval_def)

theorem polling_stops_at_completed_or_failed_witness:
  "useJob_refetchInterval no_options (Some (review_job\<lparr>status := ''failed''\<rparr>)) = Stop
   \<and> useJob_refetchInterval no_options (Some (review_job\<lparr>status := ''processing''\<rparr>))
       \<noteq> Stop
   \<and> useJob_refetchInterval no_options (Some (review_job\<lparr>status := ''processing''\<rparr>))
       = Every (Millis 2000)
   \<and> useJob_refetchInterval (Some ExporterResults_options)
        (Some (review_job\<lparr>status := ''processing''\<rparr>))
       = Every (Callback ExporterResults_refetchInterval)
   \<and> Option.bind no_options refetchInterval = None
   \<and> (0::int) < 2000"
proof -
  let ?failed = "Some (review_job\<lparr>status := ''failed''\<rparr>)"
  let ?running = "Some (review_job\<lparr>status := ''processing''\<rparr>)"
  have none: "Option.bind no_options refetchInterval = None"
    by (simp add: no_options_def)
  have given: "Option.bind (Some ExporterResults_options) refetchInterval
      = Some (Callback ExporterResults_refetchInterval)"
    by (simp add: ExporterResults_options_def)
  have stop: "useJob_refetchInterval no_options ?failed = Stop"
    using polling_stops_at_completed_or_failed [of no_options ?failed 2000, THEN conjunct1]
    by simp
  have go: "useJob_refetchInterval no_options ?running \<noteq> Stop"
    using polling_stops_at_completed_or_failed [of no_options ?running 2000, THEN conjunct1]
    by simp
  have every: "useJob_refetchInterval no_options ?running = Every (Millis 2000)"
    using polling_stops_at_completed_or_failed
            [of no_options ?running 2000, THEN conjunct2, THEN conjunct1] go none
    by simp
  have go': "useJob_refetchInterval (Some ExporterResults_options) ?running \<noteq> Stop"
    using polling_stops_at_completed_or_failed
            [of "Some ExporterResults_options" ?running 2000, THEN conjunct1]
    by simp
  have callback: "useJob_refetchInterval (Some ExporterResults_options) ?running
      = Every (Callback ExporterResults_refetchInterval)"
    using polling_stops_at_completed_or_failed
            [of "Some ExporterResults_options" ?running 2000, THEN conjunct2, THEN conjunct1]
          go' given
    by simp
  have pos: "(0::int) < 2000"
    using polling_stops_at_completed_or_failed
            [of no_options ?running 2000, THEN conjunct2, THEN conjunct2] every none
    by simp
  from stop go every callback none pos show ?thesis by simp
qed

text \<open>
  Claim C5 as stated fails: on a job whose status is \<open>needs_manual_review\<close> the function
  does not return \<open>false\<close>; polling goes on every 2000 milliseconds.
\<close>

theorem polling_continues_at_needs_manual_review:
  "status review_job = ''needs_manual_review''
   \<and> useJob_refetchInterval no_options (Some review_job) = Every (Millis 2000)
   \<and> useJob_refetchInterval no_options (Some review_job) \<noteq> Stop"
  by (simp add: useJob_refetchInterval_def review_job_def no_options_def)

section \<open>Severity levels\<close>

text \<open>
  Claim C6, as the code has it. The severity of an issue of a validation result is one of
  exactly \<open>critical\<close>, \<open>high\<close>, \<open>medium\<close>, \<open>low\<close>; the severity of a \<open>Finding\<close> is one of
  exactly \<open>critical\<close>, \<open>warning\<close>, \<open>info\<close>.
\<close>

theorem severity_levels_of_findings_and_issues:
  "range (\<lambda>i :: Issue. IssueSeverity_text (Issue.severity i))
     = {''critical'', ''high'', ''medium'', ''low''}
   \<and> range (\<lambda>f :: Finding. FindingSeverity_text (Finding.severity f))
     = {''critical'', ''warning'', ''info''}"
proof -
  have i1: "IssueSeverity_text s \<in> {''critical'', ''high'', ''medium'', ''low''}" for s
    by (cases s) simp_all
  have i2: "t \<in> {''critical'', ''high'', ''medium'', ''low''}
      \<Longrightarrow> \<exists>i :: Issue. t = IssueSeverity_text (Issue.severity i)" for t
  proof -
    assume "t \<in> {''critical'', ''high'', ''medium'', ''low''}"
    then obtain s where "t = IssueSeverity_text s"
      using IssueSeverity_text.simps by (metis insertE singletonD)
    then have "t = IssueSeverity_text (Issue.severity (sample_issue s []))"
      by (simp add: sample_issue_def)
    then show ?thesis ..
  qed
  have f1: "FindingSeverity_text s \<in> {''critical'', ''warning'', ''info''}" for s
    by (cases s) simp_all
  have f2: "t \<in> {''critical'', ''warning'', ''info''}
      \<Longrightarrow> \<exists>f :: Finding. t = FindingSeverity_text (Finding.severity f)" for t
  proof -
    assume "t \<in> {''critical'', ''warning'', ''info''}"
    then obtain s where "t = FindingSeverity_text s"
      using FindingSeverity_text.simps by (metis insertE singletonD)
    then have "t = FindingSeverity_text (Finding.severity (warning_finding\<lparr>Finding.severity := s\<rparr>))"
      by simp
    then show ?thesis ..
  qed
  have "range (\<lambda>i :: Issue. IssueSeverity_text (Issue.severity i))
     = {''critical'', ''high'', ''medium'', ''low''}"
  proof (rule set_eqI)
    fix t :: string
    show "t \<in> range (\<lambda>i :: Issue. IssueSeverity_text (Issue.severity i))
        \<longleftrightarrow> t \<in> {''critical'', ''high'', ''medium'', ''low''}"
      using i1 i2 [of t] by blast
  qed
  moreover have "range (\<lambda>f :: Finding. FindingSeverity_text (Finding.severity f))
     = {''critical'', ''warning'', ''info''}"
  proof (rule set_eqI)
    fix t :: string
    show "t \<in> range (\<lambda>f :: Finding. FindingSeverity_text (Finding.severity f))
        \<longleftrightarrow> t \<in> {''critical'', ''warning'', ''info''}"
      using f1 f2 [of t] by blast
  qed
  ultimately show ?thesis ..
qed

text \<open>
  Claim C6 as stated fails: a \<open>Finding\<close> may carry the severity \<open>warning\<close>, which is none
  of the four levels.
\<close>

theorem finding_severity_outside_four_levels:
  "Finding.severity warning_finding = Warning
   \<and> FindingSeverity_text (Finding.severity warning_finding)
       \<notin> {''critical'', ''high'', ''medium'', ''low''}"
  by (simp add: warning_finding_def)

section \<open>The issue list of the results page\<close>

lemma subseq_mset_subset: "subseq ys xs \<Longrightarrow> mset ys \<subseteq># mset xs"
proof (induction rule: list_emb.induct)
  case (list_emb_Nil ys)
  show ?case by simp
next
  case (list_emb_Cons xs ys y)
  then show ?case
    by (auto simp: subseteq_mset_def le_Suc_eq)
next
  case (list_emb_Cons2 x y xs ys)
  then show ?case by simp
qed

lemma subseq_filter_unique:
  "subseq ys xs \<Longrightarrow> mset ys = filter_mset P (mset xs) \<Longrightarrow> ys = filter P xs"
proof (induction xs arbitrary: ys)
  case Nil
  then show ?case by simp
next
  case (Cons x xs)
  have all_P: "\<forall>y \<in> set ys. P y"
  proof
    fix y assume "y \<in> set ys"
    then have "y \<in># filter_mset P (mset (x # xs))"
      using Cons.prems(2) by (metis set_mset_mset)
    then show "P y" by (simp only: set_mset_filter) simp
  qed
  from Cons.prems(1) consider (skip) "subseq ys xs"
    | (take) ys' where "ys = x # ys'" "subseq ys' xs"
    by (cases ys) (auto simp: subseq_Cons2_iff split: if_splits)
  then show ?case
  proof cases
    case skip
    show ?thesis
    proof (cases "P x")
      case True
      from skip have "count (mset ys) x \<le> count (mset xs) x"
        by (intro mset_subset_eq_count subseq_mset_subset)
      moreover from True Cons.prems(2) have "count (mset ys) x = Suc (count (mset xs) x)"
        by simp
      ultimately show ?thesis by simp
    next
      case False
      with Cons.prems(2) have "mset ys = filter_mset P (mset xs)" by simp
      with skip Cons.IH False show ?thesis by simp
    qed
  next
    case take
    with all_P have Px: "P x" by simp
    with take(1) Cons.prems(2) have "mset ys' = filter_mset P (mset xs)" by simp
    with take(2) Cons.IH have "ys' = filter P xs" by simp
    with take(1) Px show ?thesis by simp
  qed
qed

text \<open>
  Claim C10. With the show-all toggle on, the page displays the full issue list unchanged.
  With the toggle off it displays the issues of severity critical or high and no others,
  each as often as it occurs, in the order of the full list; the displayed list is the
  only list with these properties.
\<close>

theorem displayed_issues_are_high_priority_sublist:
  "displayedIssues True issues = issues
   \<and> subseq (displayedIssues False issues) issues
   \<and> mset (displayedIssues False issues)
       = filter_mset (\<lambda>i. Issue.severity i = Critical \<or> Issue.severity i = High) (mset issues)
   \<and> (subseq ys issues
        \<and> mset ys = filter_mset (\<lambda>i. Issue.severity i = Critical \<or> Issue.severity i = High)
                       (mset issues)
      \<longrightarrow> ys = displayedIssues False issues)"
proof -
  have shown: "displayedIssues False issues
      = filter (\<lambda>i. Issue.severity i = Critical \<or> Issue.severity i = High) issues"
    by (simp add: displayedIssues_def highPriorityIssues_def)
  have "displayedIssues True issues = issues"
    by (simp add: displayedIssues_def)
  moreover have "subseq (displayedIssues False issues) issues"
    by (simp add: shown)
  moreover have "mset (displayedIssues False issues)
       = filter_mset (\<lambda>i. Issue.severity i = Critical \<or> Issue.severity i = High) (mset issues)"
    by (simp add: shown)
  moreover have "subseq ys issues
        \<and> mset ys = filter_mset (\<lambda>i. Issue.severity i = Critical \<or> Issue.severity i = High)
                       (mset issues)
      \<longrightarrow> ys = displayedIssues False issues"
    using subseq_filter_unique [of ys issues] by (simp add: shown)
  ultimately show ?thesis by blast
qed

theorem displayed_issues_are_high_priority_sublist_witness:
  "displayedIssues False sample_issues
     = [sample_issue Critical ''b'', sample_issue High ''d'', sample_issue Critical ''b'']
   \<and> subseq [sample_issue Critical ''b'', sample_issue High ''d'', sample_issue Critical ''b'']
        sample_issues
   \<and> displayedIssues True sample_issues = sample_issues"
proof -
  have sub: "subseq [sample_issue Critical ''b'', sample_issue High ''d'', sample_issue Critical ''b'']
        sample_issues"
    by (simp add: sample_issues_def)
  have ms: "mset [sample_issue Critical ''b'', sample_issue High ''d'', sample_issue Critical ''b'']
      = filter_mset (\<lambda>i. Issue.severity i = Critical \<or> Issue.severity i = High)
          (mset sample_issues)"
    by (simp add: sample_issues_def sample_issue_def)
  from displayed_issues_are_high_priority_sublist
         [of sample_issues
             "[sample_issue Critical ''b'', sample_issue High ''d'', sample_issue Critical ''b'']"]
       sub ms
  show ?thesis by simp
qed

end
